theory Spec2Isabelle
  imports Main "HOL-Library.Sublist"
begin

section \<open>Strings of the host language\<close>

text \<open>
  Strings are lists of characters, a character being a code unit below 256. The three
  string methods the control plane uses are \<^verbatim>\<open>includes\<close>, \<^verbatim>\<open>endsWith\<close> and
  \<^verbatim>\<open>trim\<close>, which strips the white space of that range from both ends;
  \<^verbatim>\<open>slice(0, -n)\<close> is \<open>take (length s - n) s\<close>, which is the empty string when \<open>s\<close>
  is shorter than \<open>n\<close>, as in the source language.
\<close>

fun js_includes :: "string \<Rightarrow> string \<Rightarrow> bool" where
  "js_includes [] n = (n = [])"
| "js_includes (c # cs) n = (prefix n (c # cs) \<or> js_includes cs n)"

definition endsWith :: "string \<Rightarrow> string \<Rightarrow> bool" where
  "endsWith s suf = suffix suf s"

definition is_space :: "char \<Rightarrow> bool" where
  \<comment> \<open>tab, line feed, vertical tab, form feed, carriage return, space, no-break space\<close>
  "is_space c = (c \<in> {CHR 0x09, CHR 0x0A, CHR 0x0B, CHR 0x0C, CHR 0x0D, CHR 0x20, CHR 0xA0})"

definition trim :: "string \<Rightarrow> string" where
  "trim s = rev (dropWhile is_space (rev (dropWhile is_space s)))"

definition slice_end :: "string \<Rightarrow> nat \<Rightarrow> string" where
  \<comment> \<open>\<^verbatim>\<open>s.slice(0, -n)\<close>\<close>
  "slice_end s n = take (length s - n) s"

definition backslash :: string where
  "backslash = [CHR 0x5C]"

definition newline :: char where
  "newline = CHR 0x0A"


section \<open>JSON values\<close>

text \<open>
  The value a line parses to. Numbers are integers here: the only numbers the control
  plane handles are timestamps and turn indices, and no decision of the code depends on
  a fractional part. An object is its list of members; \<^verbatim>\<open>JSON.parse\<close> never returns
  two members with one key.
\<close>

datatype json =
    JNull
  | JBool bool
  | JNum int
  | JStr string
  | JArr "json list"
  | JObj "(string \<times> json) list"

fun js_typeof :: "json \<Rightarrow> string" where
  "js_typeof JNull = ''object''"
| "js_typeof (JBool _) = ''boolean''"
| "js_typeof (JNum _) = ''number''"
| "js_typeof (JStr _) = ''string''"
| "js_typeof (JArr _) = ''object''"
| "js_typeof (JObj _) = ''object''"

fun truthy :: "json \<Rightarrow> bool" where
  "truthy JNull = False"
| "truthy (JBool b) = b"
| "truthy (JNum n) = (n \<noteq> 0)"
| "truthy (JStr s) = (s \<noteq> [])"
| "truthy (JArr _) = True"
| "truthy (JObj _) = True"

text \<open>Property access \<^verbatim>\<open>v.k\<close> on a non-null value: \<open>None\<close> is \<^verbatim>\<open>undefined\<close>.\<close>

fun field :: "string \<Rightarrow> json \<Rightarrow> json option" where
  "field k (JObj kvs) = map_of kvs k"
| "field k _ = None"

fun is_string :: "json option \<Rightarrow> bool" where
  \<comment> \<open>\<^verbatim>\<open>typeof v === "string"\<close>\<close>
  "is_string (Some (JStr _)) = True"
| "is_string _ = False"


text \<open>
  \<^verbatim>\<open>String(v)\<close>, as template literals apply it: \<open>None\<close> is \<^verbatim>\<open>undefined\<close>.
\<close>

fun nat_digits :: "nat \<Rightarrow> string" where
  "nat_digits n =
     (if n < 10 then [char_of (48 + n)]
      else nat_digits (n div 10) @ [char_of (48 + n mod 10)])"

definition int_digits :: "int \<Rightarrow> string" where
  "int_digits i = (if i < 0 then CHR ''-'' # nat_digits (nat (- i)) else nat_digits (nat i))"

fun js_join :: "string \<Rightarrow> string list \<Rightarrow> string" where
  \<comment> \<open>\<^verbatim>\<open>xs.join(sep)\<close>\<close>
  "js_join sep [] = []"
| "js_join sep [x] = x"
| "js_join sep (x # y # ys) = x @ sep @ js_join sep (y # ys)"

fun json_String :: "json \<Rightarrow> string" where
  "json_String JNull = ''null''"
| "json_String (JBool b) = (if b then ''true'' else ''false'')"
| "json_String (JNum n) = int_digits n"
| "json_String (JStr s) = s"
| "json_String (JArr vs) =
     js_join '','' (map (\<lambda>v. if v = JNull then [] else json_String v) vs)"
| "json_String (JObj _) = ''[object Object]''"

definition js_String :: "json option \<Rightarrow> string" where
  "js_String v = (case v of None \<Rightarrow> ''undefined'' | Some j \<Rightarrow> json_String j)"


section \<open>Wire protocol: decoding a command line (control-rpc.ts)\<close>

text \<open>
  \<^verbatim>\<open>JSON.parse\<close> belongs to the runtime, so \<open>parseCommand\<close> takes it as a parameter:
  \<open>Inl m\<close> is a thrown error with message \<open>m\<close>, \<open>Inr v\<close> the parsed value. The result
  \<^verbatim>\<open>{ command?, error? }\<close> is a sum: \<open>Inl\<close> the error string, \<open>Inr\<close> the command.
\<close>

type_synonym json_parser = "string \<Rightarrow> string + json"

definition parseCommand :: "json_parser \<Rightarrow> string \<Rightarrow> string + json" where
  "parseCommand JSON_parse line =
     (case JSON_parse line of
        Inl message \<Rightarrow> Inl (''Failed to parse command: '' @ message)
      | Inr parsed \<Rightarrow>
          if \<not> truthy parsed \<or> js_typeof parsed \<noteq> ''object''
            then Inl ''Invalid command: expected JSON object''
          else if \<not> is_string (field ''type'' parsed)
            then Inl ''Missing command type''
          else Inr parsed)"

text \<open>The six command types of \<^verbatim>\<open>RpcCommand\<close> (control-types.ts).\<close>

definition command_types :: "string list" where
  "command_types = [''send'', ''get_message'', ''get_summary'', ''clear'', ''abort'', ''subscribe'']"

text \<open>
  \<^verbatim>\<open>JSON.parse\<close> on the lines used as examples below; on any other line this table
  reports a syntax error.
\<close>

definition JSON_parse_sample :: json_parser where
  \<open>JSON_parse_sample line =
     (if line = ''{"type":"restart"}'' then Inr (JObj [(''type'', JStr ''restart'')])
      else if line = ''{"type":"abort","id":"x"}''
        then Inr (JObj [(''type'', JStr ''abort''), (''id'', JStr ''x'')])
      else if line = ''[]'' then Inr (JArr [])
      else if line = ''42'' then Inr (JNum 42)
      else if line = ''{"id":"x"}'' then Inr (JObj [(''id'', JStr ''x'')])
      else if line = ''{"type":"response","command":"send","success":false,"error":"Missing message"}''
        then Inr (JObj [(''type'', JStr ''response''), (''command'', JStr ''send''),
                        (''success'', JBool False), (''error'', JStr ''Missing message'')])
      else if line = ''{"type":"response","command":"subscribe","success":true,"data":{"subscriptionId":"a","event":"turn_end"},"id":"a"}''
        then Inr (JObj [(''type'', JStr ''response''), (''command'', JStr ''subscribe''),
                        (''success'', JBool True),
                        (''data'', JObj [(''subscriptionId'', JStr ''a''),
                                         (''event'', JStr ''turn_end'')]),
                        (''id'', JStr ''a'')])
      else if line = ''{"type":"response","command":"subscribe","success":true,"data":{"subscriptionId":"sub_1_x","event":"turn_end"}}''
        then Inr (JObj [(''type'', JStr ''response''), (''command'', JStr ''subscribe''),
                        (''success'', JBool True),
                        (''data'', JObj [(''subscriptionId'', JStr ''sub_1_x''),
                                         (''event'', JStr ''turn_end'')])])
      else if line = ''{"type":"event","event":"turn_end","data":{"turnIndex":0},"subscriptionId":"a"}''
        then Inr (JObj [(''type'', JStr ''event''), (''event'', JStr ''turn_end''),
                        (''data'', JObj [(''turnIndex'', JNum 0)]),
                        (''subscriptionId'', JStr ''a'')])
      else Inl ''Unexpected token'')\<close>

fun is_primitive :: "json \<Rightarrow> bool" where
  \<comment> \<open>null, a boolean, a number or a string\<close>
  "is_primitive (JArr _) = False"
| "is_primitive (JObj _) = False"
| "is_primitive _ = True"


section \<open>Conversation entries and message extraction (control-messages.ts)\<close>

text \<open>
  A content part is a text part or a part of another type (tool call, image, thinking),
  of which only the type is kept. A message has a role when \<^verbatim>\<open>"role" in msg\<close>. An
  entry of the branch is a message entry or an entry of another type.
\<close>

datatype content_part = TextPart string | OtherPart string

record message =
  role :: "string option"
  content :: "content_part list"
  timestamp :: int

datatype entry = MessageEntry message | OtherEntry string

record extracted_message =
  em_role :: string
  em_content :: string
  em_timestamp :: int

record session_entry =
  entry_id :: string
  parentId :: "string option"

fun text_parts :: "content_part list \<Rightarrow> string list" where
  \<comment> \<open>\<^verbatim>\<open>.filter(c => c.type === "text").map(c => c.text)\<close>\<close>
  "text_parts [] = []"
| "text_parts (TextPart t # cs) = t # text_parts cs"
| "text_parts (OtherPart _ # cs) = text_parts cs"

definition newline_str :: string where
  "newline_str = [newline]"

text \<open>The body of the backward loop of \<open>getLastAssistantMessage\<close> for one entry.\<close>

fun assistant_text :: "entry \<Rightarrow> extracted_message option" where
  "assistant_text (MessageEntry msg) =
     (if role msg = Some ''assistant'' \<and> 0 < length (text_parts (content msg))
      then Some \<lparr>em_role = ''assistant'',
                 em_content = js_join newline_str (text_parts (content msg)),
                 em_timestamp = timestamp msg\<rparr>
      else None)"
| "assistant_text (OtherEntry _) = None"

text \<open>
  \<open>scan_back\<close> takes the entries from index \<open>length - 1\<close> down to \<open>0\<close>, that is the
  reversed branch, and returns at the first hit.
\<close>

fun scan_back :: "entry list \<Rightarrow> extracted_message option" where
  "scan_back [] = None"
| "scan_back (e # es) =
     (case assistant_text e of Some m \<Rightarrow> Some m | None \<Rightarrow> scan_back es)"

definition getLastAssistantMessage_branch :: "entry list \<Rightarrow> extracted_message option" where
  "getLastAssistantMessage_branch branch = scan_back (rev branch)"

fun is_user_entry :: "entry \<Rightarrow> bool" where
  "is_user_entry (MessageEntry msg) = (role msg = Some ''user'')"
| "is_user_entry (OtherEntry _) = False"

fun turn_text :: "entry \<Rightarrow> extracted_message list" where
  "turn_text (MessageEntry msg) =
     (case role msg of
        Some r \<Rightarrow>
          if (r = ''user'' \<or> r = ''assistant'') \<and> 0 < length (text_parts (content msg))
          then [\<lparr>em_role = r,
                 em_content = js_join newline_str (text_parts (content msg)),
                 em_timestamp = timestamp msg\<rparr>]
          else []
      | None \<Rightarrow> [])"
| "turn_text (OtherEntry _) = []"

text \<open>
  The index of the last user message, scanning backward: \<open>last_user_index es n\<close> scans the
  reversed prefix \<open>es\<close> whose first element has index \<open>n - 1\<close>.
\<close>

fun last_user_index :: "entry list \<Rightarrow> nat \<Rightarrow> nat option" where
  "last_user_index [] n = None"
| "last_user_index (e # es) n =
     (if is_user_entry e then Some (n - 1) else last_user_index es (n - 1))"

definition getMessagesSinceLastPrompt_branch :: "entry list \<Rightarrow> extracted_message list" where
  "getMessagesSinceLastPrompt_branch branch =
     (case last_user_index (rev branch) (length branch) of
        None \<Rightarrow> []
      | Some lastUserIndex \<Rightarrow> concat (map turn_text (drop lastUserIndex branch)))"

definition getFirstEntryId_entries :: "session_entry list \<Rightarrow> string option" where
  "getFirstEntryId_entries entries =
     (case entries of
        [] \<Rightarrow> None
      | first # _ \<Rightarrow>
          (case find (\<lambda>e. parentId e = None) entries of
             Some root \<Rightarrow> Some (entry_id root)
           | None \<Rightarrow> Some (entry_id first)))"

definition extracted_json :: "extracted_message \<Rightarrow> json" where
  "extracted_json m =
     JObj [(''role'', JStr (em_role m)), (''content'', JStr (em_content m)),
           (''timestamp'', JNum (em_timestamp m))]"


section \<open>The session collaborator and the socket state (control-types.ts)\<close>

text \<open>
  The host session is outside the repository. \<open>ctx\<close> holds what the extension context
  answers when the dispatcher asks: the idle flag, the branch, the entries, the leaf id,
  the session id and name, whether the session manager has \<^verbatim>\<open>rewindTo\<close> and what a
  call of it does, the model registry, and the outcome of the completion call. The
  collaborators are taken not to throw outside the \<^verbatim>\<open>try\<close> blocks of the source.
\<close>

record model_info =
  model_provider :: string
  model_id :: string

datatype rewind = NoRewindTo | RewindReturns | RewindThrows string

datatype completion = CompleteThrows string | CompleteReturns string "content_part list"

record ctx =
  isIdle :: bool
  getBranch :: "entry list"
  getEntries :: "session_entry list"
  getLeafId :: "string option"
  getSessionId :: string
  getSessionName :: "string option"
  rewindTo :: rewind
  model :: "model_info option"
  registry_find :: "string \<Rightarrow> string \<Rightarrow> model_info option"
  getApiKey :: "model_info \<Rightarrow> string option"
  complete :: "model_info \<Rightarrow> string \<Rightarrow> string \<Rightarrow> string \<Rightarrow> completion"

definition getLastAssistantMessage :: "ctx \<Rightarrow> extracted_message option" where
  "getLastAssistantMessage c = getLastAssistantMessage_branch (getBranch c)"

definition getMessagesSinceLastPrompt :: "ctx \<Rightarrow> extracted_message list" where
  "getMessagesSinceLastPrompt c = getMessagesSinceLastPrompt_branch (getBranch c)"

definition getFirstEntryId :: "ctx \<Rightarrow> string option" where
  "getFirstEntryId c = getFirstEntryId_entries (getEntries c)"

text \<open>model-selection.ts\<close>

definition CODEX_MODEL_ID :: string where
  "CODEX_MODEL_ID = ''gpt-5.3-codex-spark''"

definition HAIKU_MODEL_ID :: string where
  "HAIKU_MODEL_ID = ''claude-haiku-4-5''"

definition usable_key :: "string option \<Rightarrow> bool" where
  \<comment> \<open>the truthiness of a \<^verbatim>\<open>string | undefined\<close>\<close>
  "usable_key k = (case k of None \<Rightarrow> False | Some s \<Rightarrow> s \<noteq> [])"

definition selectSmallModel :: "ctx \<Rightarrow> model_info option" where
  "selectSmallModel c =
     (case (case registry_find c ''openai-codex'' CODEX_MODEL_ID of
              Some codexModel \<Rightarrow>
                if usable_key (getApiKey c codexModel) then Some codexModel else None
            | None \<Rightarrow> None) of
        Some m \<Rightarrow> Some m
      | None \<Rightarrow>
          (case (case registry_find c ''anthropic'' HAIKU_MODEL_ID of
                   Some haikuModel \<Rightarrow>
                     if usable_key (getApiKey c haikuModel) then Some haikuModel else None
                 | None \<Rightarrow> None) of
             Some m \<Rightarrow> Some m
           | None \<Rightarrow> model c))"

text \<open>
  A connection handle is a number. The frames the server writes: \<^verbatim>\<open>RpcResponse\<close> and
  \<^verbatim>\<open>RpcEvent\<close>; an optional member that is \<^verbatim>\<open>undefined\<close> is \<open>None\<close>.
\<close>

type_synonym socket = nat

record rpc_response =
  command :: string
  success :: bool
  data :: "json option"
  error :: "string option"
  response_id :: "string option"

record rpc_event =
  event :: string
  event_data :: "json option"
  subscriptionId :: "string option"

datatype frame = Response rpc_response | Event rpc_event

record socket_state =
  server :: bool
  socketPath :: "string option"
  session_context :: "ctx option"
  current_alias :: "string option"
  aliasTimer :: bool
  turnEndSubscriptions :: "(socket \<times> string) list"

text \<open>
  What a handler does besides changing the socket state, in order: it starts an alias
  sync (\<^verbatim>\<open>void syncAlias(state, ctx)\<close>, which runs on its own and is \<open>syncAlias\<close>
  below), writes a frame to a connection (\<open>writeResponse\<close>, \<open>writeEvent\<close>: the frame as
  a JSON line, a failing write being swallowed), calls a collaborator, writes to the
  error stream, or registers the one-shot cleanup of a subscription on a connection.
\<close>

datatype effect =
    SyncAlias
  | Write socket frame
  | Abort
  | SendMessage string "string option"
  | RewindTo string
  | Stderr string
  | OnceCloseOrError socket string

fun writes :: "effect list \<Rightarrow> (socket \<times> frame) list" where
  "writes [] = []"
| "writes (Write s f # es) = (s, f) # writes es"
| "writes (_ # es) = writes es"

fun calls :: "effect list \<Rightarrow> effect list" where
  \<comment> \<open>the calls that change the session: abort, sendMessage, rewindTo\<close>
  "calls [] = []"
| "calls (Abort # es) = Abort # calls es"
| "calls (SendMessage m d # es) = SendMessage m d # calls es"
| "calls (RewindTo i # es) = RewindTo i # calls es"
| "calls (_ # es) = calls es"


section \<open>The command dispatcher (control.ts, handleCommand)\<close>

text \<open>
  The clock and the random source that name a subscription when the command carries no
  id: \<open>Math_random36\<close> is \<^verbatim>\<open>Math.random().toString(36).slice(2, 8)\<close>.
\<close>

record runtime =
  Date_now :: int
  Math_random36 :: string

definition SESSION_MESSAGE_TYPE :: string where
  "SESSION_MESSAGE_TYPE = ''session-message''"

definition SUMMARIZATION_SYSTEM_PROMPT :: string where
  "SUMMARIZATION_SYSTEM_PROMPT =
     ''You are a conversation summarizer. Create concise, accurate summaries that preserve key information, decisions, and outcomes.''"

definition TURN_SUMMARY_PROMPT :: string where
  "TURN_SUMMARY_PROMPT =
     ''Summarize what happened in this conversation since the last user prompt. Focus on:''
     @ newline_str @ ''- What was accomplished''
     @ newline_str @ ''- Any decisions made''
     @ newline_str @ ''- Files that were read, modified, or created''
     @ newline_str @ ''- Any errors or issues encountered''
     @ newline_str @ ''- Current state/next steps''
     @ newline_str @ newline_str
     @ ''Be concise but comprehensive. Preserve exact file paths, function names, and error messages.''"

definition command_id :: "json \<Rightarrow> string option" where
  \<comment> \<open>\<^verbatim>\<open>"id" in command && typeof command.id === "string" ? command.id : undefined\<close>\<close>
  "command_id cmd = (case field ''id'' cmd of Some (JStr s) \<Rightarrow> Some s | _ \<Rightarrow> None)"

definition command_type :: "json \<Rightarrow> string" where
  \<comment> \<open>\<^verbatim>\<open>command.type\<close>, a string for every command the decoder returns\<close>
  "command_type cmd = js_String (field ''type'' cmd)"

definition respond ::
  "socket_state \<Rightarrow> socket \<Rightarrow> string option \<Rightarrow> bool \<Rightarrow> string \<Rightarrow> json option
     \<Rightarrow> string option \<Rightarrow> effect list" where
  "respond st sock i ok commandName d err =
     (if session_context st \<noteq> None then [SyncAlias] else [])
     @ [Write sock (Response \<lparr>command = commandName, success = ok, data = d, error = err,
                              response_id = i\<rparr>)]"

definition cleanup :: "socket_state \<Rightarrow> string \<Rightarrow> socket_state" where
  \<comment> \<open>\<^verbatim>\<open>findIndex\<close> by subscription id, then \<^verbatim>\<open>splice(idx, 1)\<close>\<close>
  "cleanup st sid =
     st\<lparr>turnEndSubscriptions :=
          takeWhile (\<lambda>s. snd s \<noteq> sid) (turnEndSubscriptions st)
          @ drop 1 (dropWhile (\<lambda>s. snd s \<noteq> sid) (turnEndSubscriptions st))\<rparr>"

definition handle_subscribe ::
  "runtime \<Rightarrow> socket_state \<Rightarrow> json \<Rightarrow> socket \<Rightarrow> effect list \<times> socket_state" where
  "handle_subscribe rt st cmd sock =
     (if field ''event'' cmd = Some (JStr ''turn_end'') then
        let subscriptionId =
              (case command_id cmd of
                 Some i \<Rightarrow> i
               | None \<Rightarrow> ''sub_'' @ int_digits (Date_now rt) @ ''_'' @ Math_random36 rt)
        in (OnceCloseOrError sock subscriptionId
              # respond st sock (command_id cmd) True ''subscribe''
                  (Some (JObj [(''subscriptionId'', JStr subscriptionId),
                               (''event'', JStr ''turn_end'')])) None,
            st\<lparr>turnEndSubscriptions := turnEndSubscriptions st @ [(sock, subscriptionId)]\<rparr>)
      else
        (respond st sock (command_id cmd) False ''subscribe'' None
           (Some (''Unknown event type: '' @ js_String (field ''event'' cmd))), st))"

definition handle_get_message :: "socket_state \<Rightarrow> ctx \<Rightarrow> json \<Rightarrow> socket \<Rightarrow> effect list" where
  "handle_get_message st c cmd sock =
     (case getLastAssistantMessage c of
        None \<Rightarrow>
          respond st sock (command_id cmd) True ''get_message''
            (Some (JObj [(''message'', JNull)])) None
      | Some message \<Rightarrow>
          respond st sock (command_id cmd) True ''get_message''
            (Some (JObj [(''message'', extracted_json message)])) None)"

definition conversationText :: "extracted_message list \<Rightarrow> string" where
  "conversationText messages =
     js_join (newline_str @ newline_str)
       (map (\<lambda>m. (if em_role m = ''user'' then ''User'' else ''Assistant'') @ '': '' @ em_content m)
            messages)"

definition summary_request :: "extracted_message list \<Rightarrow> string" where
  "summary_request messages =
     ''<conversation>'' @ newline_str @ conversationText messages @ newline_str
     @ ''</conversation>'' @ newline_str @ newline_str @ TURN_SUMMARY_PROMPT"

definition handle_get_summary :: "socket_state \<Rightarrow> ctx \<Rightarrow> json \<Rightarrow> socket \<Rightarrow> effect list" where
  "handle_get_summary st c cmd sock =
     (if length (getMessagesSinceLastPrompt c) = 0 then
        respond st sock (command_id cmd) False ''get_summary'' None
          (Some ''No messages to summarize'')
      else
        (case selectSmallModel c of
           None \<Rightarrow>
             respond st sock (command_id cmd) False ''get_summary'' None
               (Some ''No model available for summarization'')
         | Some m \<Rightarrow>
             (case getApiKey c m of
                None \<Rightarrow>
                  respond st sock (command_id cmd) False ''get_summary'' None
                    (Some ''No API key available for summarization model'')
              | Some apiKey \<Rightarrow>
                  if apiKey = [] then
                    respond st sock (command_id cmd) False ''get_summary'' None
                      (Some ''No API key available for summarization model'')
                  else
                    (case complete c m SUMMARIZATION_SYSTEM_PROMPT
                            (summary_request (getMessagesSinceLastPrompt c)) apiKey of
                       CompleteThrows message \<Rightarrow>
                         Stderr (''[control] Summarization failed: '' @ message @ newline_str)
                         # respond st sock (command_id cmd) False ''get_summary'' None
                             (Some (''Summarization failed: '' @ message))
                     | CompleteReturns stopReason parts \<Rightarrow>
                         if stopReason = ''aborted'' \<or> stopReason = ''error'' then
                           respond st sock (command_id cmd) False ''get_summary'' None
                             (Some ''Summarization failed'')
                         else
                           respond st sock (command_id cmd) True ''get_summary''
                             (Some (JObj [(''summary'',
                                           JStr (js_join newline_str (text_parts parts))),
                                          (''model'', JStr (model_id m))])) None))))"

definition summarize_requested :: "json \<Rightarrow> bool" where
  \<comment> \<open>the truthiness of \<^verbatim>\<open>command.summarize\<close>\<close>
  "summarize_requested cmd = (case field ''summarize'' cmd of None \<Rightarrow> False | Some v \<Rightarrow> truthy v)"

definition handle_clear :: "socket_state \<Rightarrow> ctx \<Rightarrow> json \<Rightarrow> socket \<Rightarrow> effect list" where
  "handle_clear st c cmd sock =
     (if \<not> isIdle c then
        respond st sock (command_id cmd) False ''clear'' None
          (Some ''Session is busy - wait for turn to complete'')
      else
        (case getFirstEntryId c of
           None \<Rightarrow>
             respond st sock (command_id cmd) False ''clear'' None (Some ''No entries in session'')
         | Some firstEntryId \<Rightarrow>
             if firstEntryId = [] then
               respond st sock (command_id cmd) False ''clear'' None (Some ''No entries in session'')
             else if getLeafId c = Some firstEntryId then
               respond st sock (command_id cmd) True ''clear''
                 (Some (JObj [(''cleared'', JBool True), (''alreadyAtRoot'', JBool True)])) None
             else if summarize_requested cmd then
               respond st sock (command_id cmd) False ''clear'' None
                 (Some ''Clear with summarization not supported via RPC - use summarize=false'')
             else
               (case rewindTo c of
                  NoRewindTo \<Rightarrow>
                    respond st sock (command_id cmd) False ''clear'' None
                      (Some ''Session manager does not support rewindTo'')
                | RewindReturns \<Rightarrow>
                    RewindTo firstEntryId
                    # respond st sock (command_id cmd) True ''clear''
                        (Some (JObj [(''cleared'', JBool True), (''targetId'', JStr firstEntryId)]))
                        None
                | RewindThrows message \<Rightarrow>
                    RewindTo firstEntryId
                    # respond st sock (command_id cmd) False ''clear'' None
                        (Some (''Clear failed: '' @ message)))))"

definition requested_mode :: "json \<Rightarrow> json" where
  \<comment> \<open>\<^verbatim>\<open>command.mode ?? "steer"\<close>\<close>
  "requested_mode cmd =
     (case field ''mode'' cmd of None \<Rightarrow> JStr ''steer'' | Some JNull \<Rightarrow> JStr ''steer''
      | Some m \<Rightarrow> m)"

definition handle_send :: "socket_state \<Rightarrow> ctx \<Rightarrow> json \<Rightarrow> socket \<Rightarrow> effect list" where
  "handle_send st c cmd sock =
     (case field ''message'' cmd of
        Some (JStr message) \<Rightarrow>
          if length (trim message) = 0 then
            respond st sock (command_id cmd) False ''send'' None (Some ''Missing message'')
          else
            (if isIdle c then SendMessage message None
             else SendMessage message
                    (Some (if requested_mode cmd = JStr ''follow_up'' then ''followUp''
                           else ''steer'')))
            # respond st sock (command_id cmd) True ''send''
                (Some (JObj [(''delivered'', JBool True),
                             (''mode'', if isIdle c then JStr ''direct'' else requested_mode cmd)]))
                None
      | _ \<Rightarrow> respond st sock (command_id cmd) False ''send'' None (Some ''Missing message''))"

text \<open>
  \<open>SendMessage message d\<close> is \<^verbatim>\<open>pi.sendMessage\<close> of the custom message with that
  content and \<^verbatim>\<open>triggerTurn: true\<close>; \<open>d\<close> is the \<^verbatim>\<open>deliverAs\<close> option, absent for
  an idle session. The first \<open>SyncAlias\<close> of an attached session is the sync started
  before the dispatch; \<open>respond\<close> starts another.
\<close>

definition handleCommand ::
  "runtime \<Rightarrow> socket_state \<Rightarrow> json \<Rightarrow> socket \<Rightarrow> effect list \<times> socket_state" where
  "handleCommand rt st cmd sock =
     (case session_context st of
        None \<Rightarrow>
          (respond st sock (command_id cmd) False (command_type cmd) None
             (Some ''Session not ready''), st)
      | Some c \<Rightarrow>
          if command_type cmd = ''abort'' then
            (SyncAlias # Abort # respond st sock (command_id cmd) True ''abort'' None None, st)
          else if command_type cmd = ''subscribe'' then
            (SyncAlias # fst (handle_subscribe rt st cmd sock),
             snd (handle_subscribe rt st cmd sock))
          else if command_type cmd = ''get_message'' then
            (SyncAlias # handle_get_message st c cmd sock, st)
          else if command_type cmd = ''get_summary'' then
            (SyncAlias # handle_get_summary st c cmd sock, st)
          else if command_type cmd = ''clear'' then
            (SyncAlias # handle_clear st c cmd sock, st)
          else if command_type cmd = ''send'' then
            (SyncAlias # handle_send st c cmd sock, st)
          else
            (SyncAlias # respond st sock (command_id cmd) False (command_type cmd) None
               (Some (''Unsupported command: '' @ command_type cmd)), st))"


section \<open>The server's data handler and the turn-end hook (control.ts)\<close>

text \<open>
  One line of the framing loop, already cut at the newline and trimmed: an empty line is
  skipped, a line the decoder rejects is answered with a \<^verbatim>\<open>parse\<close> response, any other
  is dispatched. Dispatch is taken to run to completion before the next line.
\<close>

definition handle_line ::
  "json_parser \<Rightarrow> runtime \<Rightarrow> socket_state \<Rightarrow> socket \<Rightarrow> string \<Rightarrow> effect list \<times> socket_state"
  where
  "handle_line JSON_parse rt st sock line =
     (if line = [] then ([], st)
      else
        (case parseCommand JSON_parse line of
           Inl err \<Rightarrow>
             ((if session_context st \<noteq> None then [SyncAlias] else [])
              @ [Write sock (Response \<lparr>command = ''parse'', success = False, data = None,
                                       error = Some (''Failed to parse command: '' @ err),
                                       response_id = None\<rparr>)], st)
         | Inr cmd \<Rightarrow> handleCommand rt st cmd sock))"

text \<open>
  The loop over the buffer, after the chunk has been appended: while the buffer holds a
  newline, cut the first line off and handle it. The result is the effects, the state
  and the partial line kept for the next chunk.
\<close>

function drain ::
  "json_parser \<Rightarrow> runtime \<Rightarrow> socket_state \<Rightarrow> socket \<Rightarrow> string
     \<Rightarrow> effect list \<times> socket_state \<times> string" where
  "drain JSON_parse rt st sock buffer =
     (if newline \<in> set buffer then
        (case handle_line JSON_parse rt st sock (trim (takeWhile (\<lambda>c. c \<noteq> newline) buffer)) of
           (es, st') \<Rightarrow>
             (case drain JSON_parse rt st' sock (drop 1 (dropWhile (\<lambda>c. c \<noteq> newline) buffer)) of
                (es', st'', rest) \<Rightarrow> (es @ es', st'', rest)))
      else ([], st, buffer))"
  by pat_completeness auto
termination
proof (relation "measure (\<lambda>(P, rt, st, sock, buffer). length buffer)")
  show "wf (measure (\<lambda>(P, rt, st, sock, buffer). length buffer))"
    by simp
next
  fix JSON_parse :: json_parser and rt :: runtime and st st' :: socket_state
    and sock :: socket and buffer :: string and es :: "effect list"
  assume "newline \<in> set buffer"
  then have "0 < length buffer"
    by (cases buffer) simp_all
  moreover have "length (dropWhile (\<lambda>c. c \<noteq> newline) buffer) \<le> length buffer"
    by (rule length_dropWhile_le)
  ultimately have "length (drop 1 (dropWhile (\<lambda>c. c \<noteq> newline) buffer)) < length buffer"
    unfolding length_drop by linarith
  then show "((JSON_parse, rt, st', sock, drop 1 (dropWhile (\<lambda>c. c \<noteq> newline) buffer)),
              (JSON_parse, rt, st, sock, buffer))
             \<in> measure (\<lambda>(P, rt, st, sock, buffer). length buffer)"
    by simp
qed

definition on_data ::
  "json_parser \<Rightarrow> runtime \<Rightarrow> socket_state \<Rightarrow> socket \<Rightarrow> string \<Rightarrow> string
     \<Rightarrow> effect list \<times> socket_state \<times> string" where
  "on_data JSON_parse rt st sock buffer chunk = drain JSON_parse rt st sock (buffer @ chunk)"

definition turn_end_event :: "extracted_message option \<Rightarrow> int \<Rightarrow> string \<Rightarrow> rpc_event" where
  \<comment> \<open>a member whose value is \<^verbatim>\<open>undefined\<close> is not part of the frame\<close>
  "turn_end_event lastMessage turnIndex sid =
     \<lparr>event = ''turn_end'',
      event_data = Some (JObj ((case lastMessage of None \<Rightarrow> []
                                | Some m \<Rightarrow> [(''message'', extracted_json m)])
                               @ [(''turnIndex'', JNum turnIndex)])),
      subscriptionId = Some sid\<rparr>"

definition on_turn_end :: "socket_state \<Rightarrow> ctx \<Rightarrow> int \<Rightarrow> effect list \<times> socket_state" where
  "on_turn_end st c turnIndex =
     (if length (turnEndSubscriptions st) = 0 then ([], st)
      else
        (SyncAlias
           # map (\<lambda>sub. Write (fst sub)
                          (Event (turn_end_event (getLastAssistantMessage c) turnIndex (snd sub))))
                 (turnEndSubscriptions st),
         st\<lparr>turnEndSubscriptions := []\<rparr>))"


section \<open>Paths (the POSIX functions of the runtime's path module)\<close>

text \<open>
  The control directory is an absolute path, computed once from the home directory; it
  is the parameter \<open>cdir\<close> of everything below. \<open>split_on\<close> cuts a path at its
  separators; \<open>normalize_segments\<close> drops empty and \<^verbatim>\<open>.\<close> segments and lets
  \<^verbatim>\<open>..\<close> remove the segment before it.
\<close>

fun split_on :: "char \<Rightarrow> string \<Rightarrow> string list" where
  "split_on c [] = [[]]"
| "split_on c (x # xs) =
     (if x = c then [] # split_on c xs
      else (case split_on c xs of [] \<Rightarrow> [[x]] | s # ss \<Rightarrow> (x # s) # ss))"

definition norm_step :: "string list \<Rightarrow> string \<Rightarrow> string list" where
  "norm_step stack seg =
     (if seg = [] \<or> seg = ''.'' then stack
      else if seg = ''..'' then butlast stack
      else stack @ [seg])"

definition normalize_segments :: "string list \<Rightarrow> string list" where
  "normalize_segments segs = foldl norm_step [] segs"

definition absolute :: "string list \<Rightarrow> string" where
  "absolute segs = CHR ''/'' # js_join ''/'' segs"

definition path_resolve :: "string \<Rightarrow> string \<Rightarrow> string" where
  \<comment> \<open>\<^verbatim>\<open>path.resolve(dir, target)\<close> for an absolute \<open>dir\<close>\<close>
  "path_resolve dir target =
     (if prefix ''/'' target then absolute (normalize_segments (split_on CHR ''/'' target))
      else absolute (normalize_segments (split_on CHR ''/'' dir @ split_on CHR ''/'' target)))"

definition path_join :: "string \<Rightarrow> string \<Rightarrow> string" where
  \<comment> \<open>\<^verbatim>\<open>path.join(dir, name)\<close> for an absolute \<open>dir\<close>: a trailing separator is kept\<close>
  "path_join dir name =
     (let r = absolute (normalize_segments (split_on CHR ''/'' dir @ split_on CHR ''/'' name))
      in if suffix ''/'' name \<and> r \<noteq> ''/'' then r @ ''/'' else r)"

definition basename :: "string \<Rightarrow> string" where
  "basename p =
     (case rev (filter (\<lambda>seg. seg \<noteq> []) (split_on CHR ''/'' p)) of
        [] \<Rightarrow> [] | seg # _ \<Rightarrow> seg)"

definition dirname :: "string \<Rightarrow> string" where
  \<comment> \<open>the directory holding the entry at a normalized absolute path\<close>
  "dirname p = absolute (butlast (filter (\<lambda>seg. seg \<noteq> []) (split_on CHR ''/'' p)))"


section \<open>The control directory on disk (control-socket.ts)\<close>

text \<open>
  The filesystem is a list of nodes by absolute path, with the error stream beside it.
  The system calls return \<open>Inl\<close> an error code or \<open>Inr\<close> the result. A directory cannot
  be unlinked; a link is created only in an existing directory and only where nothing
  exists yet.
\<close>

datatype node = SocketFile | Symlink string | Directory | RegularFile

datatype errno = ENOENT | EEXIST | EINVAL | EISDIR | ENOTDIR

record world =
  files :: "(string \<times> node) list"
  stderr :: "string list"

definition errno_name :: "errno \<Rightarrow> string" where
  "errno_name e =
     (case e of ENOENT \<Rightarrow> ''ENOENT'' | EEXIST \<Rightarrow> ''EEXIST'' | EINVAL \<Rightarrow> ''EINVAL''
      | EISDIR \<Rightarrow> ''EISDIR'' | ENOTDIR \<Rightarrow> ''ENOTDIR'')"

definition fs_unlink :: "string \<Rightarrow> world \<Rightarrow> errno + world" where
  "fs_unlink p w =
     (case map_of (files w) p of
        None \<Rightarrow> Inl ENOENT
      | Some Directory \<Rightarrow> Inl EISDIR
      | Some _ \<Rightarrow> Inr (w\<lparr>files := filter (\<lambda>(q, n). q \<noteq> p) (files w)\<rparr>))"

definition fs_symlink :: "string \<Rightarrow> string \<Rightarrow> world \<Rightarrow> errno + world" where
  "fs_symlink target p w =
     (if map_of (files w) p \<noteq> None then Inl EEXIST
      else if map_of (files w) (dirname p) \<noteq> Some Directory then Inl ENOENT
      else Inr (w\<lparr>files := files w @ [(p, Symlink target)]\<rparr>))"

definition fs_readlink :: "string \<Rightarrow> world \<Rightarrow> errno + string" where
  "fs_readlink p w =
     (case map_of (files w) p of
        None \<Rightarrow> Inl ENOENT
      | Some (Symlink target) \<Rightarrow> Inr target
      | Some _ \<Rightarrow> Inl EINVAL)"

definition fs_readdir :: "string \<Rightarrow> world \<Rightarrow> errno + (string \<times> node) list" where
  \<comment> \<open>with file types: the names in the directory and what each is\<close>
  "fs_readdir d w =
     (case map_of (files w) d of
        None \<Rightarrow> Inl ENOENT
      | Some Directory \<Rightarrow>
          Inr (map (\<lambda>(p, n). (basename p, n))
                 (filter (\<lambda>(p, n). p \<noteq> d \<and> dirname p = d) (files w)))
      | Some _ \<Rightarrow> Inl ENOTDIR)"

definition SOCKET_SUFFIX :: string where
  "SOCKET_SUFFIX = ''.sock''"

definition isSafeSessionId :: "string \<Rightarrow> bool" where
  "isSafeSessionId sessionId =
     (\<not> js_includes sessionId ''/'' \<and> \<not> js_includes sessionId backslash
      \<and> \<not> js_includes sessionId ''..'' \<and> length sessionId > 0)"

definition isSafeAlias :: "string \<Rightarrow> bool" where
  "isSafeAlias a =
     (\<not> js_includes a ''/'' \<and> \<not> js_includes a backslash
      \<and> \<not> js_includes a ''..'' \<and> length a > 0)"

definition getSocketPath :: "string \<Rightarrow> string \<Rightarrow> string" where
  "getSocketPath cdir sessionId = path_join cdir (sessionId @ SOCKET_SUFFIX)"

definition getAliasPath :: "string \<Rightarrow> string \<Rightarrow> string" where
  "getAliasPath cdir a = path_join cdir (a @ ''.alias'')"

definition log_failure :: "string \<Rightarrow> string \<Rightarrow> errno \<Rightarrow> world \<Rightarrow> world" where
  \<comment> \<open>\<^verbatim>\<open>process.stderr.write\<close> of the message; the error's text is its code here\<close>
  "log_failure what p e w =
     w\<lparr>stderr := stderr w @ [''[control] Failed to '' @ what @ '' '' @ p @ '': ''
                                 @ errno_name e @ newline_str]\<rparr>"

text \<open>A path argument is \<^verbatim>\<open>string | null\<close>; \<^verbatim>\<open>!socketPath\<close> holds of null and of the empty string.\<close>

definition removeSocket :: "string option \<Rightarrow> world \<Rightarrow> world" where
  "removeSocket sockPath w =
     (case sockPath of
        None \<Rightarrow> w
      | Some p \<Rightarrow>
          if p = [] then w
          else
            (case fs_unlink p w of
               Inr w' \<Rightarrow> w'
             | Inl e \<Rightarrow> if e = ENOENT then w else log_failure ''remove socket'' p e w))"

text \<open>
  The loop over the directory entries: an entry that is no symbolic link is skipped, an
  unreadable link is skipped, a link whose resolved target is the socket path is
  unlinked. An error of that unlink leaves the loop (\<open>Inl\<close>) with the world so far.
\<close>

fun remove_matching ::
  "string \<Rightarrow> string \<Rightarrow> (string \<times> node) list \<Rightarrow> world \<Rightarrow> (errno \<times> world) + world" where
  "remove_matching cdir p [] w = Inr w"
| "remove_matching cdir p ((name, n) # entries) w =
     (case n of
        Symlink _ \<Rightarrow>
          (case fs_readlink (path_join cdir name) w of
             Inl _ \<Rightarrow> remove_matching cdir p entries w
           | Inr target \<Rightarrow>
               if path_resolve cdir target = p then
                 (case fs_unlink (path_join cdir name) w of
                    Inl e \<Rightarrow> Inl (e, w)
                  | Inr w' \<Rightarrow> remove_matching cdir p entries w')
               else remove_matching cdir p entries w)
      | _ \<Rightarrow> remove_matching cdir p entries w)"

definition removeAliasesForSocket :: "string \<Rightarrow> string option \<Rightarrow> world \<Rightarrow> world" where
  "removeAliasesForSocket cdir sockPath w =
     (case sockPath of
        None \<Rightarrow> w
      | Some p \<Rightarrow>
          if p = [] then w
          else
            (case fs_readdir cdir w of
               Inl e \<Rightarrow>
                 if e = ENOENT then w else log_failure ''remove aliases for'' p e w
             | Inr entries \<Rightarrow>
                 (case remove_matching cdir p entries w of
                    Inr w' \<Rightarrow> w'
                  | Inl (e, w') \<Rightarrow>
                      if e = ENOENT then w' else log_failure ''remove aliases for'' p e w')))"

definition createAliasSymlink :: "string \<Rightarrow> string \<Rightarrow> string \<Rightarrow> world \<Rightarrow> world" where
  "createAliasSymlink cdir sessionId a w =
     (if a = [] \<or> \<not> isSafeAlias a then w
      else
        let aliasPath = getAliasPath cdir a;
            target = sessionId @ SOCKET_SUFFIX;
            w1 = (case fs_unlink aliasPath w of
                    Inr w' \<Rightarrow> w'
                  | Inl e \<Rightarrow>
                      if e = ENOENT then w else log_failure ''remove old alias'' aliasPath e w)
        in (case fs_symlink target aliasPath w1 of
              Inr w' \<Rightarrow> w'
            | Inl e \<Rightarrow>
                if e \<noteq> EEXIST then log_failure ''create alias symlink'' aliasPath e w1 else w1))"

definition resolveSessionIdFromAlias :: "string \<Rightarrow> string \<Rightarrow> world \<Rightarrow> string option" where
  "resolveSessionIdFromAlias cdir a w =
     (if a = [] \<or> \<not> isSafeAlias a then None
      else
        (case fs_readlink (getAliasPath cdir a) w of
           Inl _ \<Rightarrow> None
         | Inr target \<Rightarrow>
             let base = basename (path_resolve cdir target) in
             if \<not> endsWith base SOCKET_SUFFIX then None
             else
               let sessionId = slice_end base (length SOCKET_SUFFIX) in
               if isSafeSessionId sessionId then Some sessionId else None))"


definition getSessionAlias :: "ctx \<Rightarrow> string option" where
  "getSessionAlias c =
     (let a = (case getSessionName c of None \<Rightarrow> [] | Some sessionName \<Rightarrow> trim sessionName)
      in if a = [] \<or> \<not> isSafeAlias a then None else Some a)"

text \<open>
  The alias sync a \<open>SyncAlias\<close> effect starts: it changes the links on disk and the alias
  recorded in the socket state, nothing else.
\<close>

definition syncAlias ::
  "string \<Rightarrow> socket_state \<Rightarrow> ctx \<Rightarrow> world \<Rightarrow> socket_state \<times> world" where
  "syncAlias cdir st c w =
     (if \<not> server st \<or> socketPath st = None \<or> socketPath st = Some [] then (st, w)
      else
        (case getSessionAlias c of
           Some a \<Rightarrow>
             if Some a \<noteq> current_alias st then
               (st\<lparr>current_alias := Some a\<rparr>,
                createAliasSymlink cdir (getSessionId c) a
                  (removeAliasesForSocket cdir (socketPath st) w))
             else (st, w)
         | None \<Rightarrow>
             if current_alias st \<noteq> None \<and> current_alias st \<noteq> Some [] then
               (st\<lparr>current_alias := None\<rparr>, removeAliasesForSocket cdir (socketPath st) w)
             else (st, w)))"


section \<open>Notions the properties are stated with\<close>




text \<open>
  The last assistant turn in the words of the specification: among the entries that are
  assistant messages with at least one text part, the last one, projected to role,
  joined text and timestamp.
\<close>

fun assistant_with_text :: "entry \<Rightarrow> bool" where
  "assistant_with_text (MessageEntry msg) =
     (role msg = Some ''assistant'' \<and> text_parts (content msg) \<noteq> [])"
| "assistant_with_text (OtherEntry _) = False"

definition projection :: "message \<Rightarrow> extracted_message" where
  "projection msg =
     \<lparr>em_role = ''assistant'', em_content = js_join newline_str (text_parts (content msg)),
      em_timestamp = timestamp msg\<rparr>"

definition last_assistant_turn :: "entry list \<Rightarrow> extracted_message option" where
  "last_assistant_turn branch =
     (case rev (filter assistant_with_text branch) of
        MessageEntry msg # _ \<Rightarrow> Some (projection msg)
      | _ \<Rightarrow> None)"


section \<open>The RPC client (control-rpc.ts, sendRpcCommand)\<close>

text \<open>
  The promise of \<open>sendRpcCommand\<close> is \<open>settled\<close>: \<open>None\<close> while pending, then the
  resolved value (the response and, after an event wait, the event payload) or the
  rejection's message. The client reacts to the events of its socket and of its timer;
  \<open>waitForEvent\<close> says whether the caller asked to wait for \<^verbatim>\<open>turn_end\<close>. Its actions
  on the socket are kept in order. Once settled, the listeners and the timer are gone
  and no event is handled.
\<close>

datatype outcome = Resolved json "json option" | Rejected string

datatype client_action = SocketWrite json | SocketEnd | Cleanup | SocketDestroy string

record rpc_client =
  buffer :: string
  response :: "json option"
  settled :: "outcome option"
  actions :: "client_action list"











text \<open>
  What the client's outcome is stated with. A message matches when it is a response for
  the sent command's type, whatever its success flag. \<open>first_match\<close> is the first
  matching message among lines; \<open>await_event\<close> follows an event wait over lines: a
  matching response replaces the one held, and the first \<^verbatim>\<open>turn_end\<close> event settles the
  call with the response held then, or rejects it when none is held. \<open>feed\<close> hands
  lines to the client one by one until it settles.
\<close>

definition matches :: "string \<Rightarrow> json \<Rightarrow> bool" where
  "matches cmdType msg =
     (field ''type'' msg = Some (JStr ''response'') \<and> field ''command'' msg = Some (JStr cmdType))"

definition is_turn_end :: "json \<Rightarrow> bool" where
  "is_turn_end msg =
     (field ''type'' msg = Some (JStr ''event'') \<and> field ''event'' msg = Some (JStr ''turn_end''))"












section \<open>A sample session\<close>

definition sample_branch :: "entry list" where
  "sample_branch =
     [MessageEntry \<lparr>role = Some ''user'', content = [TextPart ''hello''], timestamp = 1\<rparr>,
      MessageEntry \<lparr>role = Some ''assistant'', content = [TextPart ''done''], timestamp = 2\<rparr>,
      MessageEntry \<lparr>role = Some ''assistant'', content = [OtherPart ''toolCall''], timestamp = 3\<rparr>,
      OtherEntry ''compaction'']"

definition sample_ctx :: "bool \<Rightarrow> entry list \<Rightarrow> ctx" where
  "sample_ctx idle branch =
     \<lparr>isIdle = idle, getBranch = branch,
      getEntries = [\<lparr>entry_id = ''e1'', parentId = None\<rparr>,
                    \<lparr>entry_id = ''e2'', parentId = Some ''e1''\<rparr>],
      getLeafId = Some ''e2'', getSessionId = ''s1'', getSessionName = Some ''worker1'',
      rewindTo = RewindReturns, model = None,
      registry_find = (\<lambda>provider modelId. None), getApiKey = (\<lambda>m. None),
      complete = (\<lambda>m systemPrompt text apiKey. CompleteThrows ''offline'')\<rparr>"

definition sample_state :: "ctx \<Rightarrow> socket_state" where
  "sample_state c =
     \<lparr>server = True, socketPath = Some ''/home/u/.pi/session-control/s1.sock'',
      session_context = Some c, current_alias = Some ''worker1'', aliasTimer = True,
      turnEndSubscriptions = []\<rparr>"

definition sample_runtime :: runtime where
  "sample_runtime = \<lparr>Date_now = 1700000000000, Math_random36 = ''k3x9qa''\<rparr>"

definition sample_cdir :: string where
  "sample_cdir = ''/home/u/.pi/session-control''"

definition sample_world :: world where
  "sample_world =
     \<lparr>files = [(''/home/u/.pi/session-control'', Directory),
               (''/home/u/.pi/session-control/s1.sock'', SocketFile)],
      stderr = []\<rparr>"


definition subscribe_a :: json where
  "subscribe_a = JObj [(''type'', JStr ''subscribe''), (''event'', JStr ''turn_end''), (''id'', JStr ''a'')]"

definition subscribe_b :: json where
  "subscribe_b = JObj [(''type'', JStr ''subscribe''), (''event'', JStr ''turn_end''), (''id'', JStr ''b'')]"

definition two_subscribers :: socket_state where
  "two_subscribers =
     snd (handleCommand sample_runtime
            (snd (handleCommand sample_runtime (sample_state (sample_ctx False sample_branch))
                    subscribe_a 1))
            subscribe_b 2)"

definition send_follow_up :: json where
  "send_follow_up =
     JObj [(''type'', JStr ''send''), (''message'', JStr ''hello''), (''mode'', JStr ''follow_up'')]"

definition send_plain :: json where
  "send_plain = JObj [(''type'', JStr ''send''), (''message'', JStr ''hello'')]"

definition send_blank :: json where
  "send_blank = JObj [(''type'', JStr ''send''), (''message'', JStr '' '')]"

definition empty_text_branch :: "entry list" where
  "empty_text_branch =
     [MessageEntry \<lparr>role = Some ''assistant'', content = [TextPart [], OtherPart ''toolCall''],
                    timestamp = 7\<rparr>]"

definition get_message_cmd :: json where
  "get_message_cmd = JObj [(''type'', JStr ''get_message'')]"



definition renamed_ctx :: ctx where
  "renamed_ctx = (sample_ctx True sample_branch)\<lparr>getSessionName := Some ''builder''\<rparr>"

definition bound_state :: socket_state where
  "bound_state = (sample_state (sample_ctx True sample_branch))\<lparr>current_alias := None\<rparr>"


section \<open>Properties of the decoder\<close>

text \<open>
  Claim C3, as amended. For every line that \<^verbatim>\<open>JSON.parse\<close> accepts, the decoder fails
  with "Invalid command: expected JSON object" exactly when the parsed value is null, a
  boolean, a number or a string; it fails with "Missing command type" exactly when the
  value is an object or an array whose \<^verbatim>\<open>type\<close> member is absent or not a string; and
  otherwise it returns the parsed value unchanged, whatever string its \<^verbatim>\<open>type\<close> is
  (the tag is not restricted to the six command types). A line \<^verbatim>\<open>JSON.parse\<close> rejects
  fails with "Failed to parse command: " followed by the parser's message.
\<close>

theorem parseCommand_cases:
  "(JSON_parse line = Inl m \<longrightarrow>
      parseCommand JSON_parse line = Inl (''Failed to parse command: '' @ m)) \<and>
   (JSON_parse line = Inr v \<longrightarrow>
      (parseCommand JSON_parse line = Inl ''Invalid command: expected JSON object''
         \<longleftrightarrow> is_primitive v) \<and>
      (parseCommand JSON_parse line = Inl ''Missing command type''
         \<longleftrightarrow> \<not> is_primitive v \<and> \<not> is_string (field ''type'' v)) \<and>
      (\<not> is_primitive v \<and> is_string (field ''type'' v)
         \<longrightarrow> parseCommand JSON_parse line = Inr v))"
  by (cases v) (simp_all add: parseCommand_def)

theorem parseCommand_cases_witness:
  \<open>JSON_parse_sample ''{"type":"abort","id":"x"}''
     = Inr (JObj [(''type'', JStr ''abort''), (''id'', JStr ''x'')]) \<and>
   \<not> is_primitive (JObj [(''type'', JStr ''abort''), (''id'', JStr ''x'')]) \<and>
   is_string (field ''type'' (JObj [(''type'', JStr ''abort''), (''id'', JStr ''x'')])) \<and>
   parseCommand JSON_parse_sample ''{"type":"abort","id":"x"}''
     = Inr (JObj [(''type'', JStr ''abort''), (''id'', JStr ''x'')]) \<and>
   JSON_parse_sample ''{"type":'' = Inl ''Unexpected token'' \<and>
   parseCommand JSON_parse_sample ''{"type":''
     = Inl ''Failed to parse command: Unexpected token'' \<and>
   JSON_parse_sample ''42'' = Inr (JNum 42) \<and> is_primitive (JNum 42) \<and>
   parseCommand JSON_parse_sample ''42'' = Inl ''Invalid command: expected JSON object'' \<and>
   JSON_parse_sample ''{"id":"x"}'' = Inr (JObj [(''id'', JStr ''x'')]) \<and>
   \<not> is_string (field ''type'' (JObj [(''id'', JStr ''x'')])) \<and>
   parseCommand JSON_parse_sample ''{"id":"x"}'' = Inl ''Missing command type''\<close>
proof -
  have parsed:
    \<open>JSON_parse_sample ''{"type":"abort","id":"x"}''
       = Inr (JObj [(''type'', JStr ''abort''), (''id'', JStr ''x'')])\<close>
    \<open>JSON_parse_sample ''{"type":'' = Inl ''Unexpected token''\<close>
    \<open>JSON_parse_sample ''42'' = Inr (JNum 42)\<close>
    \<open>JSON_parse_sample ''{"id":"x"}'' = Inr (JObj [(''id'', JStr ''x'')])\<close>
    by (simp_all add: JSON_parse_sample_def)
  show ?thesis
    using parseCommand_cases
            [where JSON_parse = JSON_parse_sample and line = \<open>''{"type":"abort","id":"x"}''\<close>
               and v = "JObj [(''type'', JStr ''abort''), (''id'', JStr ''x'')]"]
          parseCommand_cases
            [where JSON_parse = JSON_parse_sample and line = \<open>''{"type":''\<close>
               and m = "''Unexpected token''"]
          parseCommand_cases
            [where JSON_parse = JSON_parse_sample and line = "''42''" and v = "JNum 42"]
          parseCommand_cases
            [where JSON_parse = JSON_parse_sample and line = \<open>''{"id":"x"}''\<close>
               and v = "JObj [(''id'', JStr ''x'')]"]
          parsed
    by simp
qed

text \<open>
  The claim as stated restricts the returned tag to the six command types. The line
  \<^verbatim>\<open>{"type":"restart"}\<close> decodes successfully with a tag outside them.
\<close>

theorem parseCommand_tag_counterexample:
  \<open>parseCommand JSON_parse_sample ''{"type":"restart"}''
     = Inr (JObj [(''type'', JStr ''restart'')]) \<and>
   field ''type'' (JObj [(''type'', JStr ''restart'')]) = Some (JStr ''restart'') \<and>
   ''restart'' \<notin> set command_types\<close>
  by (simp add: parseCommand_def JSON_parse_sample_def command_types_def)

section \<open>Writes and calls of the dispatcher\<close>

















text \<open>
  Claim C2. When a turn ends with \<open>n\<close> pending subscriptions, the hook writes \<open>n\<close>
  frames, the \<open>k\<close>-th being a \<^verbatim>\<open>turn_end\<close> event to the connection of the \<open>k\<close>-th
  subscription with that subscription's id; afterwards no subscription is pending, and
  another turn end in that state writes nothing and changes nothing.
\<close>

theorem turn_end_one_shot:
  "writes (fst (on_turn_end st c turnIndex)) =
     map (\<lambda>sub. (fst sub,
                  Event \<lparr>event = ''turn_end'',
                         event_data = event_data (turn_end_event (getLastAssistantMessage c)
                                                    turnIndex (snd sub)),
                         subscriptionId = Some (snd sub)\<rparr>))
         (turnEndSubscriptions st) \<and>
   length (writes (fst (on_turn_end st c turnIndex))) = length (turnEndSubscriptions st) \<and>
   turnEndSubscriptions (snd (on_turn_end st c turnIndex)) = [] \<and>
   on_turn_end (snd (on_turn_end st c turnIndex)) c' turnIndex'
     = ([], snd (on_turn_end st c turnIndex))"
proof -
  have w: "writes (map (\<lambda>sub. Write (fst sub) (f sub)) subs) = map (\<lambda>sub. (fst sub, f sub)) subs"
    for f :: "socket \<times> string \<Rightarrow> frame" and subs
    by (induction subs) simp_all
  show ?thesis
    by (simp add: on_turn_end_def w turn_end_event_def)
qed

lemma two_subscribers_eq:
  "turnEndSubscriptions two_subscribers = [(1, ''a''), (2, ''b'')]"
  by (simp add: two_subscribers_def handleCommand_def handle_subscribe_def sample_state_def
      command_type_def command_id_def js_String_def subscribe_a_def subscribe_b_def Let_def)

theorem turn_end_one_shot_witness:
  "turnEndSubscriptions two_subscribers = [(1, ''a''), (2, ''b'')] \<and>
   map fst (writes (fst (on_turn_end two_subscribers (sample_ctx True sample_branch) 5))) = [1, 2] \<and>
   turnEndSubscriptions (snd (on_turn_end two_subscribers (sample_ctx True sample_branch) 5)) = [] \<and>
   fst (on_turn_end (snd (on_turn_end two_subscribers (sample_ctx True sample_branch) 5))
          (sample_ctx True sample_branch) 6) = []"
  using turn_end_one_shot[of two_subscribers "sample_ctx True sample_branch" 5
          "sample_ctx True sample_branch" 6] two_subscribers_eq
  by simp

text \<open>
  Claim C4. With a session attached that reports busy, a \<^verbatim>\<open>clear\<close> command starts the
  two alias syncs and writes one failure response whose error, "Session is busy - wait
  for turn to complete", mentions that the session is busy. It calls neither
  \<^verbatim>\<open>rewindTo\<close> nor any other collaborator that changes the session, and the
  dispatcher leaves the socket state as it was.
\<close>

theorem clear_while_busy:
  assumes "session_context st = Some c" and "\<not> isIdle c" and "command_type cmd = ''clear''"
  shows "handleCommand rt st cmd sock =
           ([SyncAlias, SyncAlias,
             Write sock (Response \<lparr>command = ''clear'', success = False, data = None,
                          error = Some ''Session is busy - wait for turn to complete'',
                          response_id = command_id cmd\<rparr>)], st) \<and>
         js_includes ''Session is busy - wait for turn to complete'' ''busy'' \<and>
         calls (fst (handleCommand rt st cmd sock)) = [] \<and>
         RewindTo target \<notin> set (fst (handleCommand rt st cmd sock))"
  using assms by (simp add: handleCommand_def handle_clear_def respond_def)

theorem clear_while_busy_witness:
  "session_context (sample_state (sample_ctx False sample_branch))
     = Some (sample_ctx False sample_branch) \<and>
   \<not> isIdle (sample_ctx False sample_branch) \<and>
   command_type (JObj [(''type'', JStr ''clear'')]) = ''clear'' \<and>
   handleCommand sample_runtime (sample_state (sample_ctx False sample_branch))
       (JObj [(''type'', JStr ''clear'')]) 4
     = ([SyncAlias, SyncAlias,
         Write 4 (Response \<lparr>command = ''clear'', success = False, data = None,
                    error = Some ''Session is busy - wait for turn to complete'',
                    response_id = None\<rparr>)],
        sample_state (sample_ctx False sample_branch)) \<and>
   RewindTo ''e1''
     \<notin> set (fst (handleCommand sample_runtime (sample_state (sample_ctx False sample_branch))
                     (JObj [(''type'', JStr ''clear'')]) 4))"
proof -
  have h1: "session_context (sample_state (sample_ctx False sample_branch))
              = Some (sample_ctx False sample_branch)"
    by (simp add: sample_state_def)
  have h2: "\<not> isIdle (sample_ctx False sample_branch)"
    by (simp add: sample_ctx_def)
  have h3: "command_type (JObj [(''type'', JStr ''clear'')]) = ''clear''"
    by (simp add: command_type_def js_String_def)
  show ?thesis
    using clear_while_busy[OF h1 h2 h3, where rt = sample_runtime and sock = 4
            and target = "''e1''"] h1 h2 h3
    by (simp add: command_id_def)
qed

text \<open>
  Claim C5. With a session attached, a \<^verbatim>\<open>send\<close> command whose message is missing, not a
  string, or empty after trimming fails with "Missing message" and delivers nothing.
  Otherwise it succeeds with data \<^verbatim>\<open>{delivered: true, mode}\<close>: for an idle session the
  message is sent with no delivery mode and the mode reported is "direct"; for a busy
  session and requested mode \<^verbatim>\<open>follow_up\<close> the message is sent as a follow-up and the mode
  reported is "follow_up"; for a busy session and requested mode \<^verbatim>\<open>steer\<close>, or none, the
  message is sent as a steer and the mode reported is "steer".
\<close>

theorem send_delivery:
  assumes "session_context st = Some c" and "command_type cmd = ''send''"
  shows
    "(\<not> (\<exists>m. field ''message'' cmd = Some (JStr m) \<and> trim m \<noteq> []) \<longrightarrow>
        handleCommand rt st cmd sock =
          ([SyncAlias, SyncAlias,
            Write sock (Response \<lparr>command = ''send'', success = False, data = None,
                         error = Some ''Missing message'', response_id = command_id cmd\<rparr>)], st)) \<and>
     (field ''message'' cmd = Some (JStr m) \<and> trim m \<noteq> [] \<and> isIdle c \<longrightarrow>
        handleCommand rt st cmd sock =
          ([SyncAlias, SendMessage m None, SyncAlias,
            Write sock (Response \<lparr>command = ''send'', success = True,
                         data = Some (JObj [(''delivered'', JBool True), (''mode'', JStr ''direct'')]),
                         error = None, response_id = command_id cmd\<rparr>)], st)) \<and>
     (field ''message'' cmd = Some (JStr m) \<and> trim m \<noteq> [] \<and> \<not> isIdle c \<and>
      field ''mode'' cmd = Some (JStr ''follow_up'') \<longrightarrow>
        handleCommand rt st cmd sock =
          ([SyncAlias, SendMessage m (Some ''followUp''), SyncAlias,
            Write sock (Response \<lparr>command = ''send'', success = True,
                         data = Some (JObj [(''delivered'', JBool True),
                                            (''mode'', JStr ''follow_up'')]),
                         error = None, response_id = command_id cmd\<rparr>)], st)) \<and>
     (field ''message'' cmd = Some (JStr m) \<and> trim m \<noteq> [] \<and> \<not> isIdle c \<and>
      (field ''mode'' cmd = Some (JStr ''steer'') \<or> field ''mode'' cmd = None) \<longrightarrow>
        handleCommand rt st cmd sock =
          ([SyncAlias, SendMessage m (Some ''steer''), SyncAlias,
            Write sock (Response \<lparr>command = ''send'', success = True,
                         data = Some (JObj [(''delivered'', JBool True), (''mode'', JStr ''steer'')]),
                         error = None, response_id = command_id cmd\<rparr>)], st))"
  using assms
  by (auto simp add: handleCommand_def handle_send_def respond_def requested_mode_def
        split: option.split json.split)

theorem send_delivery_witness:
  "session_context (sample_state (sample_ctx False sample_branch))
     = Some (sample_ctx False sample_branch) \<and>
   command_type send_follow_up = ''send'' \<and>
   field ''message'' send_follow_up = Some (JStr ''hello'') \<and> trim ''hello'' \<noteq> [] \<and>
   \<not> isIdle (sample_ctx False sample_branch) \<and>
   field ''mode'' send_follow_up = Some (JStr ''follow_up'') \<and>
   handleCommand sample_runtime (sample_state (sample_ctx False sample_branch)) send_follow_up 2
     = ([SyncAlias, SendMessage ''hello'' (Some ''followUp''), SyncAlias,
         Write 2 (Response \<lparr>command = ''send'', success = True,
                    data = Some (JObj [(''delivered'', JBool True), (''mode'', JStr ''follow_up'')]),
                    error = None, response_id = None\<rparr>)],
        sample_state (sample_ctx False sample_branch)) \<and>
   command_type send_plain = ''send'' \<and>
   field ''message'' send_plain = Some (JStr ''hello'') \<and> field ''mode'' send_plain = None \<and>
   handleCommand sample_runtime (sample_state (sample_ctx False sample_branch)) send_plain 2
     = ([SyncAlias, SendMessage ''hello'' (Some ''steer''), SyncAlias,
         Write 2 (Response \<lparr>command = ''send'', success = True,
                    data = Some (JObj [(''delivered'', JBool True), (''mode'', JStr ''steer'')]),
                    error = None, response_id = None\<rparr>)],
        sample_state (sample_ctx False sample_branch)) \<and>
   session_context (sample_state (sample_ctx True sample_branch))
     = Some (sample_ctx True sample_branch) \<and>
   isIdle (sample_ctx True sample_branch) \<and>
   handleCommand sample_runtime (sample_state (sample_ctx True sample_branch)) send_follow_up 2
     = ([SyncAlias, SendMessage ''hello'' None, SyncAlias,
         Write 2 (Response \<lparr>command = ''send'', success = True,
                    data = Some (JObj [(''delivered'', JBool True), (''mode'', JStr ''direct'')]),
                    error = None, response_id = None\<rparr>)],
        sample_state (sample_ctx True sample_branch)) \<and>
   command_type send_blank = ''send'' \<and>
   field ''message'' send_blank = Some (JStr '' '') \<and> trim '' '' = [] \<and>
   handleCommand sample_runtime (sample_state (sample_ctx True sample_branch)) send_blank 2
     = ([SyncAlias, SyncAlias,
         Write 2 (Response \<lparr>command = ''send'', success = False, data = None,
                    error = Some ''Missing message'', response_id = None\<rparr>)],
        sample_state (sample_ctx True sample_branch))"
proof -
  have busy: "session_context (sample_state (sample_ctx False sample_branch))
              = Some (sample_ctx False sample_branch)"
    and idle: "session_context (sample_state (sample_ctx True sample_branch))
              = Some (sample_ctx True sample_branch)"
    by (simp_all add: sample_state_def)
  have ty: "command_type send_follow_up = ''send''" "command_type send_plain = ''send''"
    "command_type send_blank = ''send''"
    by (simp_all add: command_type_def js_String_def send_follow_up_def send_plain_def
          send_blank_def)
  have facts:
    "field ''message'' send_follow_up = Some (JStr ''hello'')" "trim ''hello'' \<noteq> []"
    "\<not> isIdle (sample_ctx False sample_branch)" "isIdle (sample_ctx True sample_branch)"
    "field ''mode'' send_follow_up = Some (JStr ''follow_up'')"
    "field ''message'' send_plain = Some (JStr ''hello'')" "field ''mode'' send_plain = None"
    "field ''message'' send_blank = Some (JStr '' '')" "trim '' '' = []"
    by (simp_all add: send_follow_up_def send_plain_def send_blank_def trim_def is_space_def
          sample_ctx_def)
  have ids: "command_id send_follow_up = None" "command_id send_plain = None"
    "command_id send_blank = None"
    by (simp_all add: command_id_def send_follow_up_def send_plain_def send_blank_def)
  show ?thesis
    using send_delivery[OF busy ty(1), where m = "''hello''" and rt = sample_runtime and sock = 2]
      send_delivery[OF busy ty(2), where m = "''hello''" and rt = sample_runtime and sock = 2]
      send_delivery[OF idle ty(1), where m = "''hello''" and rt = sample_runtime and sock = 2]
      send_delivery[OF idle ty(3), where m = "'' ''" and rt = sample_runtime and sock = 2]
      busy idle ty facts ids
    by simp
qed


section \<open>The last assistant message\<close>

lemma scan_back_filter:
  "scan_back es =
     (case filter assistant_with_text es of
        MessageEntry msg # _ \<Rightarrow> Some (projection msg) | _ \<Rightarrow> None)"
proof (induction es)
  case Nil
  then show ?case by simp
next
  case (Cons e es)
  then show ?case
    by (cases e) (simp_all add: projection_def)
qed

lemma getLastAssistantMessage_refines:
  "getLastAssistantMessage_branch branch = last_assistant_turn branch"
  by (simp add: getLastAssistantMessage_branch_def last_assistant_turn_def scan_back_filter
        rev_filter)

text \<open>
  Claim C6, as amended. With a session attached, \<^verbatim>\<open>get_message\<close> always writes a success
  response. Its data is \<^verbatim>\<open>{message: null}\<close> when the branch holds no assistant message
  with at least one text part, and otherwise \<^verbatim>\<open>{message: m}\<close> for the last such message,
  projected to the role, the text parts joined by newlines, and the timestamp. The text
  of the parts may be empty: only their number is tested.
\<close>

theorem get_message_result:
  assumes "session_context st = Some c" and "command_type cmd = ''get_message''"
  shows "handleCommand rt st cmd sock =
           ([SyncAlias, SyncAlias,
             Write sock (Response \<lparr>command = ''get_message'', success = True,
                          data = Some (JObj [(''message'',
                                   case last_assistant_turn (getBranch c) of
                                     None \<Rightarrow> JNull | Some m \<Rightarrow> extracted_json m)]),
                          error = None, response_id = command_id cmd\<rparr>)], st)"
  using assms
  by (simp add: handleCommand_def handle_get_message_def respond_def getLastAssistantMessage_def
        getLastAssistantMessage_refines split: option.split)

theorem get_message_result_witness:
  "session_context (sample_state (sample_ctx True sample_branch))
     = Some (sample_ctx True sample_branch) \<and>
   command_type get_message_cmd = ''get_message'' \<and>
   handleCommand sample_runtime (sample_state (sample_ctx True sample_branch)) get_message_cmd 1
     = ([SyncAlias, SyncAlias,
         Write 1 (Response \<lparr>command = ''get_message'', success = True,
              data = Some (JObj [(''message'',
                       JObj [(''role'', JStr ''assistant''), (''content'', JStr ''done''),
                             (''timestamp'', JNum 2)])]),
              error = None, response_id = None\<rparr>)],
        sample_state (sample_ctx True sample_branch)) \<and>
   session_context (sample_state (sample_ctx True [])) = Some (sample_ctx True []) \<and>
   handleCommand sample_runtime (sample_state (sample_ctx True [])) get_message_cmd 1
     = ([SyncAlias, SyncAlias,
         Write 1 (Response \<lparr>command = ''get_message'', success = True,
              data = Some (JObj [(''message'', JNull)]),
              error = None, response_id = None\<rparr>)],
        sample_state (sample_ctx True []))"
proof -
  have h1: "session_context (sample_state (sample_ctx True sample_branch))
              = Some (sample_ctx True sample_branch)"
    and h1': "session_context (sample_state (sample_ctx True [])) = Some (sample_ctx True [])"
    by (simp_all add: sample_state_def)
  have h2: "command_type get_message_cmd = ''get_message''"
    by (simp add: command_type_def js_String_def get_message_cmd_def)
  have b: "last_assistant_turn (getBranch (sample_ctx True sample_branch))
             = Some \<lparr>em_role = ''assistant'', em_content = ''done'', em_timestamp = 2\<rparr>"
    "last_assistant_turn (getBranch (sample_ctx True [])) = None"
    by (simp_all add: last_assistant_turn_def sample_ctx_def sample_branch_def projection_def
          newline_str_def)
  show ?thesis
    using get_message_result[OF h1 h2, where rt = sample_runtime and sock = 1]
      get_message_result[OF h1' h2, where rt = sample_runtime and sock = 1] h1 h1' h2 b
    by (simp add: command_id_def get_message_cmd_def extracted_json_def)
qed

text \<open>
  The claim as stated asks for an assistant turn with non-empty text content. A branch
  whose only assistant message has one text part with the empty text has no such turn,
  and \<^verbatim>\<open>get_message\<close> answers with that message, not with null.
\<close>

theorem get_message_empty_text_counterexample:
  "getBranch (sample_ctx True empty_text_branch)
     = [MessageEntry \<lparr>role = Some ''assistant'', content = [TextPart [], OtherPart ''toolCall''],
                      timestamp = 7\<rparr>] \<and>
   js_join newline_str (text_parts [TextPart [], OtherPart ''toolCall'']) = [] \<and>
   writes (fst (handleCommand sample_runtime (sample_state (sample_ctx True empty_text_branch))
                  get_message_cmd 1))
     = [(1, Response \<lparr>command = ''get_message'', success = True,
              data = Some (JObj [(''message'',
                       JObj [(''role'', JStr ''assistant''), (''content'', JStr []),
                             (''timestamp'', JNum 7)])]),
              error = None, response_id = None\<rparr>)]"
  by (simp add: handleCommand_def handle_get_message_def respond_def getLastAssistantMessage_def
        getLastAssistantMessage_branch_def sample_ctx_def sample_state_def empty_text_branch_def
        get_message_cmd_def command_type_def command_id_def js_String_def extracted_json_def)


section \<open>Aliases on disk\<close>




















text \<open>
  The alias follows the session's name: after a sync under the name \<^verbatim>\<open>worker1\<close> that
  alias resolves to the session; after the name changed to \<^verbatim>\<open>builder\<close> and another
  sync, the old alias resolves to nothing and the new one resolves to the session.
\<close>

lemma alias_follows_session_name:
  "resolveSessionIdFromAlias sample_cdir ''worker1''
     (snd (syncAlias sample_cdir bound_state (sample_ctx True sample_branch) sample_world))
     = Some ''s1'' \<and>
   resolveSessionIdFromAlias sample_cdir ''worker1''
     (snd (syncAlias sample_cdir
             (fst (syncAlias sample_cdir bound_state (sample_ctx True sample_branch) sample_world))
             renamed_ctx
             (snd (syncAlias sample_cdir bound_state (sample_ctx True sample_branch) sample_world))))
     = None \<and>
   resolveSessionIdFromAlias sample_cdir ''builder''
     (snd (syncAlias sample_cdir
             (fst (syncAlias sample_cdir bound_state (sample_ctx True sample_branch) sample_world))
             renamed_ctx
             (snd (syncAlias sample_cdir bound_state (sample_ctx True sample_branch) sample_world))))
     = Some ''s1''"
  by code_simp

text \<open>
  Claim C10. Given a null socket path, \<open>removeSocket\<close> and \<open>removeAliasesForSocket\<close>
  return at once: the disk and the error stream are as before.
\<close>

theorem remove_null_path:
  "removeSocket None w = w \<and> removeAliasesForSocket cdir None w = w"
  by (simp add: removeSocket_def removeAliasesForSocket_def)

section \<open>The outcome of an RPC call\<close>


lemma matches_not_null: "matches t JNull = False" "is_turn_end JNull = False"
  by (simp_all add: matches_def is_turn_end_def)




























end
